theory Spec2Isabelle
  imports
    Complex_Main
    "HOL-Library.Char_ord"
    "HOL-Library.List_Lexorder"
    "HOL-Library.Product_Lexorder"
    "HOL-Library.Multiset"
begin

section \<open>Cluster load profiles: the data model\<close>

text \<open>
  The development follows \<^verbatim>\<open>scripts/cluster_profiles.py\<close>. A pandas data frame is a
  list of rows, in row order. A timestamp is the number of seconds since
  1970-01-01 00:00:00 (a Thursday); consumption is an exact real number, so the rounding
  of the machine floats is not part of the model. A cluster id is its text, which is what
  \<^verbatim>\<open>astype(str)\<close> compares.
\<close>

record consumption_record =
  household_id :: string
  cluster_id :: string
  timestamp :: int
  consumption_kwh :: real

text \<open>
  A row of the generic CSV as \<^verbatim>\<open>read_csv\<close> and \<^verbatim>\<open>to_datetime(..., errors="coerce")\<close>
  leave it: \<open>None\<close> is a missing cell (NaN) or a timestamp that did not parse (NaT).
\<close>

record raw_row =
  raw_household_id :: "string option"
  raw_cluster_id :: "string option"
  raw_timestamp :: "int option"
  raw_consumption_kwh :: "real option"

record csv_table =
  columns :: "string list"
  rows :: "raw_row list"

text \<open>The household-info table of the LCL dataset; \<open>info_cluster\<close> is the cell of the
  column chosen by \<^verbatim>\<open>--lcl-cluster-col\<close>.\<close>

record info_row =
  LCLid :: string
  block_file :: string
  info_cluster :: string

record info_table =
  info_columns :: "string list"
  info_rows :: "info_row list"

text \<open>A row of a block file: \<open>tstp\<close> and \<open>energy\<close> are \<open>None\<close> where
  \<^verbatim>\<open>to_datetime\<close> or \<^verbatim>\<open>to_numeric\<close> coerce the cell to NaT or NaN.\<close>

record block_row =
  block_LCLid :: string
  tstp :: "int option"
  energy :: "real option"

record augmented_record =
  base :: consumption_record
  is_weekend :: bool
  slot :: int

text \<open>The wide table: \<open>profile_columns\<close> are the columns the frame really has; a value
  \<open>None\<close> is a missing cell (NaN), and also the content of a column the frame lacks.\<close>

record profile_row =
  profile_cluster_id :: string
  profile_slot :: int
  weekday_kwh :: "real option"
  weekend_kwh :: "real option"

record profile_table =
  profile_columns :: "string list"
  profile_rows :: "profile_row list"

datatype error =
  MissingColumns "string set"
  | SampleValueError int
  | SystemExit string

record args =
  consumption_csv :: "csv_table option"
  sample_households :: "int option"
  clusters :: "string option"
  start_date :: "string option"
  end_date :: "string option"
  lcl_info_csv :: "info_table option"
  lcl_blocks_dir :: "(string \<Rightarrow> block_row list option) option"
  lcl_cluster_col :: string

section \<open>Library operations used by the script\<close>

text \<open>Python truthiness of the optional arguments: \<^verbatim>\<open>if clusters:\<close>,
  \<^verbatim>\<open>if start_date:\<close>, \<^verbatim>\<open>if sample_households:\<close>.\<close>

definition truthy_str :: "string option \<Rightarrow> bool" where
  "truthy_str s = (case s of None \<Rightarrow> False | Some t \<Rightarrow> t \<noteq> [])"

definition truthy_list :: "'a list option \<Rightarrow> bool" where
  "truthy_list l = (case l of None \<Rightarrow> False | Some xs \<Rightarrow> xs \<noteq> [])"

definition truthy_int :: "int option \<Rightarrow> bool" where
  "truthy_int n = (case n of None \<Rightarrow> False | Some k \<Rightarrow> k \<noteq> 0)"

definition one_day :: int where
  "one_day = 86400"

definition hour :: "int \<Rightarrow> int" where
  "hour t = (t div 3600) mod 24"

definition minute :: "int \<Rightarrow> int" where
  "minute t = (t div 60) mod 60"

text \<open>\<^verbatim>\<open>dt.dayofweek\<close>: Monday is 0, Sunday is 6.\<close>

definition dayofweek :: "int \<Rightarrow> int" where
  "dayofweek t = (t div 86400 + 3) mod 7"

text \<open>\<^verbatim>\<open>drop_duplicates\<close> keeps the first occurrence of every value.\<close>

definition drop_duplicates :: "'a list \<Rightarrow> 'a list" where
  "drop_duplicates xs = rev (remdups (rev xs))"

text \<open>
  \<^verbatim>\<open>sample(n=..., random_state=42)\<close> draws \<open>n\<close> row positions without replacement
  from a population of \<open>len\<close> rows, with a generator seeded afresh at every call. The
  generator is the parameter \<open>rng\<close>, from the seed, \<open>n\<close> and \<open>len\<close> to the positions
  drawn; \<open>valid_draw\<close> says what pandas guarantees of them. A negative \<open>n\<close> and an
  \<open>n\<close> beyond the population raise.
\<close>

definition valid_draw :: "nat \<Rightarrow> nat \<Rightarrow> nat list \<Rightarrow> bool" where
  "valid_draw n len ps = (length ps = n \<and> distinct ps \<and> list_all (\<lambda>i. i < len) ps)"

definition pd_sample :: "(nat \<Rightarrow> nat \<Rightarrow> nat \<Rightarrow> nat list) \<Rightarrow> int \<Rightarrow> 'a list \<Rightarrow> error + 'a list" where
  "pd_sample rng n xs =
     (if n < 0 \<or> int (length xs) < n then Inl (SampleValueError n)
      else Inr (map (\<lambda>i. xs ! i) (rng 42 (nat n) (length xs))))"

text \<open>\<^verbatim>\<open>str.split(",")\<close>.\<close>

fun split_on :: "char \<Rightarrow> string \<Rightarrow> string list" where
  "split_on c [] = [[]]"
| "split_on c (x # xs) =
     (if x = c then [] # split_on c xs
      else (case split_on c xs of [] \<Rightarrow> [[x]] | w # ws \<Rightarrow> (x # w) # ws))"

section \<open>The generic adapter and the filter\<close>

definition required_columns :: "string set" where
  "required_columns = {''household_id'', ''cluster_id'', ''timestamp'', ''consumption_kwh''}"

definition dropna_row :: "raw_row \<Rightarrow> consumption_record option" where
  "dropna_row r =
     (case (raw_household_id r, raw_cluster_id r, raw_timestamp r, raw_consumption_kwh r) of
        (Some h, Some c, Some t, Some v) \<Rightarrow>
          Some \<lparr>household_id = h, cluster_id = c, timestamp = t, consumption_kwh = v\<rparr>
      | _ \<Rightarrow> None)"

definition load_data :: "csv_table \<Rightarrow> error + consumption_record list" where
  "load_data tbl =
     (let missing = required_columns - set (columns tbl) in
      if missing \<noteq> {} then Inl (MissingColumns missing)
      else Inr (List.map_filter dropna_row (rows tbl)))"

text \<open>\<open>to_datetime\<close> is pandas' parser of the date arguments, a parameter.\<close>

definition filter_data ::
  "(nat \<Rightarrow> nat \<Rightarrow> nat \<Rightarrow> nat list) \<Rightarrow> (string \<Rightarrow> int) \<Rightarrow> consumption_record list \<Rightarrow>
   int option \<Rightarrow> string list option \<Rightarrow> string option \<Rightarrow> string option \<Rightarrow>
   error + consumption_record list" where
  "filter_data rng to_datetime df0 sample_hh cls start_d end_d =
     (let df1 = (if truthy_list cls then filter (\<lambda>r. cluster_id r \<in> set (the cls)) df0 else df0);
          df2 = (if truthy_str start_d
                 then filter (\<lambda>r. to_datetime (the start_d) \<le> timestamp r) df1 else df1);
          df3 = (if truthy_str end_d
                 then filter (\<lambda>r. timestamp r \<le> to_datetime (the end_d) + one_day) df2 else df2)
      in if truthy_int sample_hh then
           (let households = drop_duplicates (map household_id df3) in
            case pd_sample rng (min (the sample_hh) (int (length households))) households of
              Inl e \<Rightarrow> Inl e
            | Inr smp \<Rightarrow> Inr (filter (\<lambda>r. household_id r \<in> set smp) df3))
         else Inr df3)"

text \<open>
  The filter as the specification words it: three stages, applied in this order, the
  sampling drawing from the households that the first two stages leave. The predicates of
  the stages are the ones of the script.
\<close>

definition cluster_stage :: "string list option \<Rightarrow> consumption_record list \<Rightarrow> consumption_record list" where
  "cluster_stage cls df =
     (case cls of
        None \<Rightarrow> df
      | Some cs \<Rightarrow> if cs = [] then df else filter (\<lambda>r. cluster_id r \<in> set cs) df)"

definition date_stage ::
  "(string \<Rightarrow> int) \<Rightarrow> string option \<Rightarrow> string option \<Rightarrow> consumption_record list \<Rightarrow>
   consumption_record list" where
  "date_stage to_datetime start_d end_d df =
     filter (\<lambda>r. (case start_d of None \<Rightarrow> True
                               | Some d \<Rightarrow> d = [] \<or> to_datetime d \<le> timestamp r)
               \<and> (case end_d of None \<Rightarrow> True
                               | Some d \<Rightarrow> d = [] \<or> timestamp r \<le> to_datetime d + one_day)) df"

definition sampling_stage ::
  "(nat \<Rightarrow> nat \<Rightarrow> nat \<Rightarrow> nat list) \<Rightarrow> int option \<Rightarrow> consumption_record list \<Rightarrow>
   error + consumption_record list" where
  "sampling_stage rng sample_hh df =
     (case sample_hh of
        None \<Rightarrow> Inr df
      | Some k \<Rightarrow>
          if k = 0 then Inr df
          else
            (let pool = drop_duplicates (map household_id df) in
             case pd_sample rng (min k (int (length pool))) pool of
               Inl e \<Rightarrow> Inl e
             | Inr smp \<Rightarrow> Inr (filter (\<lambda>r. household_id r \<in> set smp) df)))"

definition staged_filter ::
  "(nat \<Rightarrow> nat \<Rightarrow> nat \<Rightarrow> nat list) \<Rightarrow> (string \<Rightarrow> int) \<Rightarrow> consumption_record list \<Rightarrow>
   int option \<Rightarrow> string list option \<Rightarrow> string option \<Rightarrow> string option \<Rightarrow>
   error + consumption_record list" where
  "staged_filter rng to_datetime df sample_hh cls start_d end_d =
     sampling_stage rng sample_hh (date_stage to_datetime start_d end_d (cluster_stage cls df))"

section \<open>Time features, aggregation and reshaping\<close>

definition add_time_features :: "consumption_record list \<Rightarrow> augmented_record list" where
  "add_time_features df =
     filter (\<lambda>a. minute (timestamp (base a)) \<in> {0, 30})
       (map (\<lambda>r. \<lparr>base = r,
                  is_weekend = (5 \<le> dayofweek (timestamp r)),
                  slot = hour (timestamp r) * 2 + minute (timestamp r) div 30\<rparr>) df)"

text \<open>\<^verbatim>\<open>groupby([...]).mean().reset_index()\<close>: one row per key that occurs, in key order.\<close>

definition group_key :: "augmented_record \<Rightarrow> string \<times> bool \<times> int" where
  "group_key a = (cluster_id (base a), is_weekend a, slot a)"

definition mean :: "real list \<Rightarrow> real" where
  "mean vs = sum_list vs / real (length vs)"

definition grouped :: "augmented_record list \<Rightarrow> ((string \<times> bool \<times> int) \<times> real) list" where
  "grouped df =
     map (\<lambda>k. (k, mean (map (\<lambda>a. consumption_kwh (base a)) (filter (\<lambda>a. group_key a = k) df))))
       (sort (remdups (map group_key df)))"

text \<open>
  \<^verbatim>\<open>pivot_table(index=["cluster_id", "slot"], columns="is_weekend")\<close>: one row per index
  pair that occurs, one column per value of \<open>is_weekend\<close> that occurs anywhere in the
  table, and NaN where a pair has no entry for a column. Every index pair and column has at
  most one row of the grouped frame, so the default aggregation (the mean) returns its value.
\<close>

definition pivot_cell :: "((string \<times> bool \<times> int) \<times> real) list \<Rightarrow> string \<Rightarrow> int \<Rightarrow> bool \<Rightarrow> real option" where
  "pivot_cell g c s w = map_of g (c, w, s)"

definition weekend_column_name :: "bool \<Rightarrow> string" where
  "weekend_column_name w = (if w then ''weekend_kwh'' else ''weekday_kwh'')"

definition compute_profiles :: "augmented_record list \<Rightarrow> profile_table" where
  "compute_profiles df =
     (let g = grouped df;
          index = sort (remdups (map (\<lambda>((c, w, s), v). (c, s)) g));
          cols = sort (remdups (map (\<lambda>((c, w, s), v). w) g))
      in \<lparr>profile_columns = [''cluster_id'', ''slot''] @ map weekend_column_name cols,
          profile_rows =
            map (\<lambda>(c, s). \<lparr>profile_cluster_id = c, profile_slot = s,
                           weekday_kwh = pivot_cell g c s False,
                           weekend_kwh = pivot_cell g c s True\<rparr>) index\<rparr>)"

section \<open>The multi-block adapter\<close>

definition required_info_cols :: "string \<Rightarrow> string set" where
  "required_info_cols cluster_col = {''LCLid'', ''file'', cluster_col}"

text \<open>The household list: the cluster filter, the emptiness check and the sampling of the
  rows of the info table.\<close>

definition lcl_households ::
  "(nat \<Rightarrow> nat \<Rightarrow> nat \<Rightarrow> nat list) \<Rightarrow> info_row list \<Rightarrow> int option \<Rightarrow> string list option \<Rightarrow>
   error + info_row list" where
  "lcl_households rng info0 sample_hh cls =
     (let info1 = (if truthy_list cls then filter (\<lambda>i. info_cluster i \<in> set (the cls)) info0
                   else info0)
      in if info1 = [] then Inl (SystemExit ''No households remain after filtering by cluster.'')
         else if truthy_int sample_hh
              then pd_sample rng (min (the sample_hh) (int (length info1))) info1
              else Inr info1)"

definition block_ids :: "info_row list \<Rightarrow> string \<Rightarrow> string set" where
  "block_ids info f = set (map LCLid (filter (\<lambda>i. block_file i = f) info))"

definition block_warning :: "string \<Rightarrow> string" where
  "block_warning f = ''Warning: block file missing: '' @ f @ ''.csv''"

text \<open>The body of the loop for a block file that exists: \<open>None\<close> is the
  \<^verbatim>\<open>continue\<close> of a block without rows of its households, \<open>Some\<close> the frame appended.
  The left join repeats a row once per row of the info table with its household id.\<close>

definition read_block ::
  "(string \<Rightarrow> int) \<Rightarrow> info_row list \<Rightarrow> string set \<Rightarrow> block_row list \<Rightarrow>
   string option \<Rightarrow> string option \<Rightarrow> consumption_record list option" where
  "read_block to_datetime info ids blk start_d end_d =
     (let b1 = filter (\<lambda>b. block_LCLid b \<in> ids) blk in
      if b1 = [] then None
      else
        (let b2 = filter (\<lambda>b. tstp b \<noteq> None \<and> energy b \<noteq> None) b1;
             b3 = concat (map (\<lambda>b. map (\<lambda>i. \<lparr>household_id = block_LCLid b,
                                               cluster_id = info_cluster i,
                                               timestamp = the (tstp b),
                                               consumption_kwh = the (energy b)\<rparr>)
                                      (filter (\<lambda>i. LCLid i = block_LCLid b) info)) b2);
             b4 = (if truthy_str start_d
                   then filter (\<lambda>r. to_datetime (the start_d) \<le> timestamp r) b3 else b3);
             b5 = (if truthy_str end_d
                   then filter (\<lambda>r. timestamp r \<le> to_datetime (the end_d) + one_day) b4 else b4)
         in Some b5))"

text \<open>The loop over the block files: the frames appended and the lines printed, in order.\<close>

fun load_blocks ::
  "(string \<Rightarrow> int) \<Rightarrow> (string \<Rightarrow> block_row list option) \<Rightarrow> info_row list \<Rightarrow>
   string option \<Rightarrow> string option \<Rightarrow> string list \<Rightarrow>
   consumption_record list list \<times> string list" where
  "load_blocks to_datetime dir info start_d end_d [] = ([], [])"
| "load_blocks to_datetime dir info start_d end_d (f # fs) =
     (let (frames, printed) = load_blocks to_datetime dir info start_d end_d fs in
      case dir f of
        None \<Rightarrow> (frames, block_warning f # printed)
      | Some blk \<Rightarrow>
          (case read_block to_datetime info (block_ids info f) blk start_d end_d of
             None \<Rightarrow> (frames, printed)
           | Some frame \<Rightarrow> (frame # frames, printed)))"

text \<open>What one pass of the loop appends for the block file \<open>f\<close>, if anything.\<close>

definition frame_of ::
  "(string \<Rightarrow> int) \<Rightarrow> (string \<Rightarrow> block_row list option) \<Rightarrow> info_row list \<Rightarrow>
   string option \<Rightarrow> string option \<Rightarrow> string \<Rightarrow> consumption_record list option" where
  "frame_of to_datetime dir info start_d end_d f =
     (case dir f of
        None \<Rightarrow> None
      | Some blk \<Rightarrow> read_block to_datetime info (block_ids info f) blk start_d end_d)"

text \<open>The result is the lines printed and the outcome.\<close>

definition load_lcl_dataset ::
  "(nat \<Rightarrow> nat \<Rightarrow> nat \<Rightarrow> nat list) \<Rightarrow> (string \<Rightarrow> int) \<Rightarrow> info_table \<Rightarrow>
   (string \<Rightarrow> block_row list option) \<Rightarrow> string \<Rightarrow> int option \<Rightarrow> string list option \<Rightarrow>
   string option \<Rightarrow> string option \<Rightarrow> string list \<times> (error + consumption_record list)" where
  "load_lcl_dataset rng to_datetime info_csv dir cluster_col sample_hh cls start_d end_d =
     (let missing = required_info_cols cluster_col - set (info_columns info_csv) in
      if missing \<noteq> {} then ([], Inl (MissingColumns missing))
      else
        (case lcl_households rng (info_rows info_csv) sample_hh cls of
           Inl e \<Rightarrow> ([], Inl e)
         | Inr info \<Rightarrow>
             (let (frames, printed) =
                    load_blocks to_datetime dir info start_d end_d
                      (sort (remdups (map block_file info)))
              in if frames = []
                 then (printed, Inl (SystemExit ''No data loaded from blocks; check paths and filters.''))
                 else (printed, Inr (concat frames)))))"

section \<open>The run\<close>

text \<open>A path argument is the table (or the directory of blocks) found there. \<open>load_records\<close>
  is \<^verbatim>\<open>main\<close> up to the emptiness check; \<open>main\<close> returns the profile table it saves.\<close>

definition load_records ::
  "(nat \<Rightarrow> nat \<Rightarrow> nat \<Rightarrow> nat list) \<Rightarrow> (string \<Rightarrow> int) \<Rightarrow> args \<Rightarrow>
   string list \<times> (error + consumption_record list)" where
  "load_records rng to_datetime a =
     (let cls = (if truthy_str (clusters a) then Some (split_on CHR '','' (the (clusters a)))
                 else None)
      in case (lcl_info_csv a, lcl_blocks_dir a) of
           (Some info_csv, Some dir) \<Rightarrow>
             load_lcl_dataset rng to_datetime info_csv dir (lcl_cluster_col a)
               (sample_households a) cls (start_date a) (end_date a)
         | _ \<Rightarrow>
             (case consumption_csv a of
                None \<Rightarrow> ([], Inl (SystemExit ''Provide --consumption-csv or LCL dataset args.''))
              | Some tbl \<Rightarrow>
                  (case load_data tbl of
                     Inl e \<Rightarrow> ([], Inl e)
                   | Inr df \<Rightarrow>
                       ([], filter_data rng to_datetime df (sample_households a) cls
                              (start_date a) (end_date a)))))"

definition main ::
  "(nat \<Rightarrow> nat \<Rightarrow> nat \<Rightarrow> nat list) \<Rightarrow> (string \<Rightarrow> int) \<Rightarrow> args \<Rightarrow>
   string list \<times> (error + profile_table)" where
  "main rng to_datetime a =
     (case load_records rng to_datetime a of
        (printed, Inl e) \<Rightarrow> (printed, Inl e)
      | (printed, Inr df) \<Rightarrow>
          if df = [] then (printed, Inl (SystemExit ''No data after filtering; check inputs.''))
          else (printed, Inr (compute_profiles (add_time_features df))))"

section \<open>Parameters of the evaluated examples\<close>

text \<open>A generator that draws the first \<open>n\<close> positions, and a parser that knows that
  2024-01-01 (a Monday) starts 1704067200 seconds after the epoch.\<close>

definition first_rows :: "nat \<Rightarrow> nat \<Rightarrow> nat \<Rightarrow> nat list" where
  "first_rows seed n len = [0..<n]"

definition parse_date :: "string \<Rightarrow> int" where
  "parse_date s = (if s = ''2024-01-01'' then 1704067200 else 0)"

section \<open>Facts about the library operations\<close>

lemma falsy_int: "truthy_int (Some 0) = False" "truthy_int None = False"
  by (simp_all add: truthy_int_def)

lemma falsy_list: "truthy_list (Some []) = False" "truthy_list None = False"
  by (simp_all add: truthy_list_def)

lemma falsy_str: "truthy_str (Some []) = False" "truthy_str None = False"
  by (simp_all add: truthy_str_def)

lemma minute_range: "0 \<le> minute t \<and> minute t < 60"
  by (simp add: minute_def)

lemma hour_range: "0 \<le> hour t \<and> hour t < 24"
  by (simp add: hour_def)

lemma dayofweek_range: "0 \<le> dayofweek t \<and> dayofweek t < 7"
  by (simp add: dayofweek_def)

section \<open>Time features\<close>

lemma base_add_time_features:
  "map base (add_time_features df) = filter (\<lambda>r. minute (timestamp r) \<in> {0, 30}) df"
  by (induction df) (auto simp: add_time_features_def)

lemma in_add_time_features:
  "a \<in> set (add_time_features df) \<Longrightarrow>
     minute (timestamp (base a)) \<in> {0, 30}
     \<and> slot a = hour (timestamp (base a)) * 2 + minute (timestamp (base a)) div 30
     \<and> is_weekend a = (5 \<le> dayofweek (timestamp (base a)))"
  by (auto simp: add_time_features_def)

text \<open>
  Claim C5. The records that leave \<open>add_time_features\<close> are, in order, the input records
  whose minute is 0 or 30; each of them carries the slot \<open>hour * 2 + minute div 30\<close>, which
  lies between 0 and 47, and the weekend flag is set exactly on day 5 (Saturday) and day 6
  (Sunday). So no record off the half hour reaches the aggregation.
\<close>

theorem add_time_features_keeps_aligned_records:
  "map base (add_time_features df) =
     filter (\<lambda>r. minute (timestamp r) = 0 \<or> minute (timestamp r) = 30) df
   \<and> (\<forall>a \<in> set (add_time_features df).
         (minute (timestamp (base a)) = 0 \<or> minute (timestamp (base a)) = 30)
       \<and> slot a = hour (timestamp (base a)) * 2 + minute (timestamp (base a)) div 30
       \<and> 0 \<le> slot a \<and> slot a \<le> 47
       \<and> (is_weekend a \<longleftrightarrow>
            dayofweek (timestamp (base a)) = 5 \<or> dayofweek (timestamp (base a)) = 6))"
proof (intro conjI ballI)
  show "map base (add_time_features df) =
          filter (\<lambda>r. minute (timestamp r) = 0 \<or> minute (timestamp r) = 30) df"
    using base_add_time_features [of df] by simp
next
  fix a assume a: "a \<in> set (add_time_features df)"
  note f = in_add_time_features [OF a]
  show "minute (timestamp (base a)) = 0 \<or> minute (timestamp (base a)) = 30"
    using f by simp
  show s: "slot a = hour (timestamp (base a)) * 2 + minute (timestamp (base a)) div 30"
    using f by simp
  have h: "0 \<le> hour (timestamp (base a)) \<and> hour (timestamp (base a)) \<le> 23"
    using hour_range [of "timestamp (base a)"] by simp
  have m: "minute (timestamp (base a)) div 30 = 0 \<or> minute (timestamp (base a)) div 30 = 1"
    using f by auto
  show "0 \<le> slot a" using s h m by auto
  show "slot a \<le> 47" using s h m by auto
  show "is_weekend a \<longleftrightarrow>
          dayofweek (timestamp (base a)) = 5 \<or> dayofweek (timestamp (base a)) = 6"
    using f dayofweek_range [of "timestamp (base a)"] by auto
qed

text \<open>Saturday 2024-01-06 at 23:30:59 is kept, in slot 47 of a weekend; Monday 2024-01-01
  at 00:15 is dropped.\<close>

theorem add_time_features_keeps_aligned_records_witness:
  "map base (add_time_features
     [\<lparr>household_id = ''H1'', cluster_id = ''A'', timestamp = 1704583859, consumption_kwh = 1\<rparr>,
      \<lparr>household_id = ''H1'', cluster_id = ''A'', timestamp = 1704068100, consumption_kwh = 2\<rparr>])
   = [\<lparr>household_id = ''H1'', cluster_id = ''A'', timestamp = 1704583859, consumption_kwh = 1\<rparr>]
   \<and> list_all (\<lambda>a. slot a = 47 \<and> 0 \<le> slot a \<and> slot a \<le> 47 \<and> is_weekend a)
     (add_time_features
     [\<lparr>household_id = ''H1'', cluster_id = ''A'', timestamp = 1704583859, consumption_kwh = 1\<rparr>,
      \<lparr>household_id = ''H1'', cluster_id = ''A'', timestamp = 1704068100, consumption_kwh = 2\<rparr>])"
  using add_time_features_keeps_aligned_records
    [of "[\<lparr>household_id = ''H1'', cluster_id = ''A'', timestamp = 1704583859, consumption_kwh = 1\<rparr>,
          \<lparr>household_id = ''H1'', cluster_id = ''A'', timestamp = 1704068100, consumption_kwh = 2\<rparr>]"]
  by (simp add: add_time_features_def minute_def hour_def dayofweek_def)

section \<open>Filters that are switched off\<close>


section \<open>The filter in stages\<close>

lemma filter_data_staged:
  "filter_data rng td df n cls s e = staged_filter rng td df n cls s e"
proof -
  have c: "(if truthy_list cls then filter (\<lambda>r. cluster_id r \<in> set (the cls)) df else df)
             = cluster_stage cls df"
    by (simp add: truthy_list_def cluster_stage_def split: option.splits)
  have d: "(let df2 = (if truthy_str s then filter (\<lambda>r. td (the s) \<le> timestamp r) x else x)
            in (if truthy_str e then filter (\<lambda>r. timestamp r \<le> td (the e) + one_day) df2 else df2))
             = date_stage td s e x" for x
    by (auto simp: truthy_str_def date_stage_def Let_def split: option.splits intro: filter_cong)
  show ?thesis
    unfolding filter_data_def staged_filter_def
    apply (simp only: c Let_def)
    apply (simp only: d [unfolded Let_def])
    apply (simp add: sampling_stage_def truthy_int_def Let_def split: option.splits)
    done
qed

text \<open>
  Claim C6. \<open>filter_data\<close> is the cluster filter, then the date filter, then the sampling,
  and the sampling draws from the households of the records that the two filters leave.
\<close>

theorem filter_data_is_cluster_then_date_then_sampling:
  "filter_data rng td df n cls s e
     = sampling_stage rng n (date_stage td s e (cluster_stage cls df))"
  using filter_data_staged [of rng td df n cls s e] by (simp add: staged_filter_def)

section \<open>Schema errors\<close>

lemma lcl_households_not_missing_columns:
  "lcl_households rng i n cls \<noteq> Inl (MissingColumns m)"
  by (simp add: lcl_households_def pd_sample_def Let_def)

lemma load_lcl_missing_columns:
  "\<not> required_info_cols cc \<subseteq> set (info_columns tbl) \<Longrightarrow>
   load_lcl_dataset rng td tbl dir cc n cls s e
     = ([], Inl (MissingColumns (required_info_cols cc - set (info_columns tbl))))"
  by (auto simp: load_lcl_dataset_def Let_def)

lemma load_lcl_columns_present:
  "required_info_cols cc \<subseteq> set (info_columns tbl) \<Longrightarrow>
   snd (load_lcl_dataset rng td tbl dir cc n cls s e) \<noteq> Inl (MissingColumns m)"
  using lcl_households_not_missing_columns [of rng "info_rows tbl" n cls m]
  by (auto simp: load_lcl_dataset_def Let_def split: sum.splits prod.splits)

text \<open>
  Claim C8. The generic adapter fails exactly when a required column is absent, and the
  error carries the set of all the absent required columns; the multi-block adapter
  raises its missing-columns error exactly when a required column of the info table is
  absent, again with all of them.
\<close>

theorem schema_error_names_every_missing_column:
  "(isl (load_data tbl) \<longleftrightarrow> \<not> required_columns \<subseteq> set (columns tbl))
   \<and> (\<not> required_columns \<subseteq> set (columns tbl) \<longrightarrow>
        load_data tbl = Inl (MissingColumns (required_columns - set (columns tbl))))
   \<and> ((\<exists>m. snd (load_lcl_dataset rng td info dir cc n cls s e) = Inl (MissingColumns m))
        \<longleftrightarrow> \<not> required_info_cols cc \<subseteq> set (info_columns info))
   \<and> (\<not> required_info_cols cc \<subseteq> set (info_columns info) \<longrightarrow>
        load_lcl_dataset rng td info dir cc n cls s e
          = ([], Inl (MissingColumns (required_info_cols cc - set (info_columns info)))))"
proof (intro conjI impI)
  show "isl (load_data tbl) \<longleftrightarrow> \<not> required_columns \<subseteq> set (columns tbl)"
    by (auto simp: load_data_def Let_def)
  show "load_data tbl = Inl (MissingColumns (required_columns - set (columns tbl)))"
    if "\<not> required_columns \<subseteq> set (columns tbl)"
    using that by (auto simp: load_data_def Let_def)
  show "(\<exists>m. snd (load_lcl_dataset rng td info dir cc n cls s e) = Inl (MissingColumns m))
        \<longleftrightarrow> \<not> required_info_cols cc \<subseteq> set (info_columns info)"
  proof (cases "required_info_cols cc \<subseteq> set (info_columns info)")
    case True
    then show ?thesis
      using load_lcl_columns_present [of cc info rng td dir n cls s e] by simp
  next
    case False
    then show ?thesis
      using load_lcl_missing_columns [of cc info rng td dir n cls s e] by simp
  qed
  show "load_lcl_dataset rng td info dir cc n cls s e
          = ([], Inl (MissingColumns (required_info_cols cc - set (info_columns info))))"
    if "\<not> required_info_cols cc \<subseteq> set (info_columns info)"
    using that by (rule load_lcl_missing_columns)
qed

theorem schema_error_names_every_missing_column_witness:
  "load_data \<lparr>columns = [''household_id'', ''timestamp''], rows = []\<rparr>
     = Inl (MissingColumns {''cluster_id'', ''consumption_kwh''})
   \<and> load_lcl_dataset first_rows parse_date \<lparr>info_columns = [''LCLid''], info_rows = []\<rparr>
       (\<lambda>f. None) ''Acorn_grouped'' None None None None
     = ([], Inl (MissingColumns {''file'', ''Acorn_grouped''}))"
  using schema_error_names_every_missing_column
    [of "\<lparr>columns = [''household_id'', ''timestamp''], rows = []\<rparr>" first_rows parse_date
        "\<lparr>info_columns = [''LCLid''], info_rows = []\<rparr>" "\<lambda>f. None" "''Acorn_grouped''"
        None None None None]
  by (auto simp: required_columns_def required_info_cols_def)

section \<open>The end of the date range\<close>

text \<open>With an end date and no other filter, the records kept are those stamped up to and
  including the first instant of the day after the end date: every record inside the end
  date stays, whatever its time of day.\<close>

lemma end_date_filter_bound:
  "e \<noteq> [] \<Longrightarrow>
   filter_data rng td df None None None (Some e)
     = Inr (filter (\<lambda>r. timestamp r \<le> td e + one_day) df)"
  by (simp add: filter_data_def falsy_int falsy_list falsy_str truthy_str_def Let_def)

text \<open>
  Claim C1, at the input where the script departs from it. The end date is 2024-01-01 and
  the record is stamped 2024-01-02 00:00:00, the first instant of the day after: the
  comparison \<^verbatim>\<open><=\<close> keeps it, in \<open>filter_data\<close> and in the per-block filter of the
  multi-block adapter.
\<close>

theorem end_date_filter_keeps_midnight_after_end_date:
  "filter_data first_rows parse_date
     [\<lparr>household_id = ''H1'', cluster_id = ''A'', timestamp = 1704153600, consumption_kwh = 1\<rparr>]
     None None None (Some ''2024-01-01'')
   = Inr [\<lparr>household_id = ''H1'', cluster_id = ''A'', timestamp = 1704153600, consumption_kwh = 1\<rparr>]
   \<and> load_lcl_dataset first_rows parse_date
       \<lparr>info_columns = [''LCLid'', ''file'', ''Acorn_grouped''],
        info_rows = [\<lparr>LCLid = ''H1'', block_file = ''block_0'', info_cluster = ''A''\<rparr>]\<rparr>
       (\<lambda>f. if f = ''block_0''
            then Some [\<lparr>block_LCLid = ''H1'', tstp = Some 1704153600, energy = Some 1\<rparr>]
            else None)
       ''Acorn_grouped'' None None None (Some ''2024-01-01'')
   = ([], Inr [\<lparr>household_id = ''H1'', cluster_id = ''A'', timestamp = 1704153600, consumption_kwh = 1\<rparr>])"
  by (simp add: filter_data_def load_lcl_dataset_def lcl_households_def read_block_def
      block_ids_def required_info_cols_def truthy_str_def truthy_list_def truthy_int_def
      parse_date_def one_day_def Let_def)

section \<open>Household sampling\<close>

lemma set_drop_duplicates: "set (drop_duplicates xs) = set xs"
  by (simp add: drop_duplicates_def)

lemma distinct_drop_duplicates: "distinct (drop_duplicates xs)"
  by (simp add: drop_duplicates_def)

lemma length_drop_duplicates: "length (drop_duplicates xs) = card (set xs)"
  using distinct_card [OF distinct_drop_duplicates [of xs]] by (simp add: set_drop_duplicates)

lemma valid_draw_rows:
  assumes v: "valid_draw n (length xs) ps" and d: "distinct xs"
  shows "distinct (map ((!) xs) ps)" and "set (map ((!) xs) ps) \<subseteq> set xs"
    and "length (map ((!) xs) ps) = n"
proof -
  have r: "set ps \<subseteq> {..<length xs}" and dp: "distinct ps" and l: "length ps = n"
    using v by (auto simp: valid_draw_def list_all_iff)
  have "inj_on ((!) xs) {..<length xs}"
    using d by (auto simp: inj_on_def nth_eq_iff_index_eq)
  then have "inj_on ((!) xs) (set ps)" using r by (rule inj_on_subset)
  then show "distinct (map ((!) xs) ps)" using dp by (simp add: distinct_map)
  show "set (map ((!) xs) ps) \<subseteq> set xs" using r by auto
  show "length (map ((!) xs) ps) = n" using l by simp
qed

lemma pd_sample_min:
  "0 < k \<Longrightarrow> pd_sample rng (min k (int (length xs))) xs
     = Inr (map ((!) xs) (rng 42 (nat (min k (int (length xs)))) (length xs)))"
  by (simp add: pd_sample_def)

lemma nat_min_length: "0 < k \<Longrightarrow> nat (min k (int n)) = min (nat k) n"
  by (auto simp: min_def)

lemma filter_data_sample_card:
  assumes k: "0 < k"
    and v: "valid_draw (nat (min k (int (length pool)))) (length pool)
              (rng 42 (nat (min k (int (length pool)))) (length pool))"
    and pool: "pool = drop_duplicates (map household_id kept)"
    and kept: "kept = date_stage td s e (cluster_stage cls df)"
  shows "\<exists>out. filter_data rng td df (Some k) cls s e = Inr out
           \<and> set out \<subseteq> set kept
           \<and> household_id ` set out
               = set (map ((!) pool) (rng 42 (nat (min k (int (length pool)))) (length pool)))
           \<and> card (household_id ` set out) = min (nat k) (card (household_id ` set kept))"
proof -
  define smp where "smp = map ((!) pool) (rng 42 (nat (min k (int (length pool)))) (length pool))"
  define out where "out = filter (\<lambda>r. household_id r \<in> set smp) kept"
  have dpool: "distinct pool" by (simp add: pool distinct_drop_duplicates)
  have spool: "set pool = household_id ` set kept" by (simp add: pool set_drop_duplicates)
  have lpool: "length pool = card (household_id ` set kept)"
    using length_drop_duplicates [of "map household_id kept"] by (simp add: pool)
  note vr = valid_draw_rows [OF v dpool, folded smp_def]
  have res: "filter_data rng td df (Some k) cls s e = Inr out"
    using k pd_sample_min [OF k, of rng pool]
    by (simp add: filter_data_staged staged_filter_def sampling_stage_def Let_def
        out_def smp_def kept [symmetric] pool [symmetric])
  have sub: "set smp \<subseteq> household_id ` set kept" using vr(2) spool by simp
  have img: "household_id ` set out = set smp"
    using sub by (auto simp: out_def)
  have "card (set smp) = length smp" using vr(1) by (rule distinct_card)
  also have "\<dots> = nat (min k (int (length pool)))" using vr(3) .
  also have "\<dots> = min (nat k) (card (household_id ` set kept))"
    using nat_min_length [OF k, of "length pool"] lpool by simp
  finally have c: "card (household_id ` set out) = min (nat k) (card (household_id ` set kept))"
    using img by simp
  have "set out \<subseteq> set kept" by (auto simp: out_def)
  then show ?thesis using res img c by (auto simp: smp_def)
qed

lemma lcl_households_sample_card:
  assumes k: "0 < k"
    and pool: "lcl_households rng info None cls = Inr pool"
    and v: "valid_draw (nat (min k (int (length pool)))) (length pool)
              (rng 42 (nat (min k (int (length pool)))) (length pool))"
  shows "\<exists>sel. lcl_households rng info (Some k) cls = Inr sel
           \<and> sel = map ((!) pool) (rng 42 (nat (min k (int (length pool)))) (length pool))
           \<and> length sel = min (nat k) (length pool)
           \<and> set sel \<subseteq> set pool
           \<and> (distinct (map LCLid pool) \<longrightarrow>
                card (LCLid ` set sel) = min (nat k) (card (LCLid ` set pool)))"
proof -
  define sel where "sel = map ((!) pool) (rng 42 (nat (min k (int (length pool)))) (length pool))"
  have p: "pool = (if truthy_list cls then filter (\<lambda>i. info_cluster i \<in> set (the cls)) info else info)"
    and ne: "pool \<noteq> []"
    using pool by (auto simp: lcl_households_def Let_def falsy_int split: if_splits)
  have res: "lcl_households rng info (Some k) cls = Inr sel"
    using k ne pd_sample_min [OF k, of rng pool]
    by (simp add: lcl_households_def Let_def truthy_int_def p [symmetric] sel_def)
  have len: "length sel = min (nat k) (length pool)"
    using v nat_min_length [OF k, of "length pool"] by (simp add: sel_def valid_draw_def)
  have sub: "set sel \<subseteq> set pool"
    using v by (auto simp: sel_def valid_draw_def list_all_iff)
  have c: "card (LCLid ` set sel) = min (nat k) (card (LCLid ` set pool))"
    if d: "distinct (map LCLid pool)"
  proof -
    have dp: "distinct pool" and inj: "inj_on LCLid (set pool)"
      using d by (auto simp: distinct_map)
    have ds: "distinct sel" using valid_draw_rows(1) [OF v dp] by (simp add: sel_def)
    have "card (LCLid ` set sel) = card (set sel)"
      using inj sub by (intro card_image) (rule inj_on_subset)
    also have "\<dots> = length sel" using ds by (rule distinct_card)
    also have "\<dots> = min (nat k) (length pool)" by (rule len)
    also have "length pool = card (LCLid ` set pool)"
      using d distinct_card [of "map LCLid pool"] by simp
    finally show ?thesis .
  qed
  show ?thesis using res len sub c by (auto simp: sel_def)
qed


text \<open>
  Claim C4, as amended. For a sample size \<open>k\<close> of at least 1 and a draw as pandas makes it
  (\<open>k'\<close> distinct positions of the pool, with \<open>k'\<close> the minimum of \<open>k\<close> and the size of the
  pool), \<open>filter_data\<close> keeps the records of exactly \<open>min k d\<close> households, \<open>d\<close> the number
  of distinct households that the cluster and date filters leave; the households kept are
  the ones at the positions that the generator seeded with 42 draws, so they depend on the
  pool and on \<open>k\<close> only. The multi-block adapter draws \<open>min k r\<close> rows of the \<open>r\<close> rows of
  the info table left by the cluster filter, which are as many households when no
  household has two rows.
\<close>

theorem household_sampling_selects_min_of_sample_size_and_pool:
  assumes "0 < k"
    and "kept = date_stage td s e (cluster_stage cls df)"
    and "pool = drop_duplicates (map household_id kept)"
    and "valid_draw (nat (min k (int (length pool)))) (length pool)
           (rng 42 (nat (min k (int (length pool)))) (length pool))"
    and "lcl_households rng info None cls2 = Inr hh"
    and "valid_draw (nat (min k (int (length hh)))) (length hh)
           (rng 42 (nat (min k (int (length hh)))) (length hh))"
  shows "(\<exists>out. filter_data rng td df (Some k) cls s e = Inr out
           \<and> set out \<subseteq> set kept
           \<and> household_id ` set out
               = set (map ((!) pool) (rng 42 (nat (min k (int (length pool)))) (length pool)))
           \<and> card (household_id ` set out) = min (nat k) (card (household_id ` set kept)))
       \<and> (\<exists>sel. lcl_households rng info (Some k) cls2 = Inr sel
           \<and> sel = map ((!) hh) (rng 42 (nat (min k (int (length hh)))) (length hh))
           \<and> length sel = min (nat k) (length hh)
           \<and> set sel \<subseteq> set hh
           \<and> (distinct (map LCLid hh) \<longrightarrow>
                card (LCLid ` set sel) = min (nat k) (card (LCLid ` set hh))))"
proof (rule conjI)
  show "\<exists>out. filter_data rng td df (Some k) cls s e = Inr out
           \<and> set out \<subseteq> set kept
           \<and> household_id ` set out
               = set (map ((!) pool) (rng 42 (nat (min k (int (length pool)))) (length pool)))
           \<and> card (household_id ` set out) = min (nat k) (card (household_id ` set kept))"
    using assms(1) assms(4) assms(3) assms(2) by (rule filter_data_sample_card)
  show "\<exists>sel. lcl_households rng info (Some k) cls2 = Inr sel
           \<and> sel = map ((!) hh) (rng 42 (nat (min k (int (length hh)))) (length hh))
           \<and> length sel = min (nat k) (length hh)
           \<and> set sel \<subseteq> set hh
           \<and> (distinct (map LCLid hh) \<longrightarrow>
                card (LCLid ` set sel) = min (nat k) (card (LCLid ` set hh)))"
    using assms(1) assms(5) assms(6) by (rule lcl_households_sample_card)
qed

theorem household_sampling_selects_min_of_sample_size_and_pool_witness:
  "filter_data first_rows parse_date
     [\<lparr>household_id = ''H1'', cluster_id = ''A'', timestamp = 0, consumption_kwh = 1\<rparr>,
      \<lparr>household_id = ''H2'', cluster_id = ''A'', timestamp = 0, consumption_kwh = 2\<rparr>,
      \<lparr>household_id = ''H1'', cluster_id = ''A'', timestamp = 1800, consumption_kwh = 3\<rparr>,
      \<lparr>household_id = ''H3'', cluster_id = ''A'', timestamp = 0, consumption_kwh = 4\<rparr>]
     (Some 2) None None None
   = Inr [\<lparr>household_id = ''H1'', cluster_id = ''A'', timestamp = 0, consumption_kwh = 1\<rparr>,
          \<lparr>household_id = ''H2'', cluster_id = ''A'', timestamp = 0, consumption_kwh = 2\<rparr>,
          \<lparr>household_id = ''H1'', cluster_id = ''A'', timestamp = 1800, consumption_kwh = 3\<rparr>]
   \<and> lcl_households first_rows
       [\<lparr>LCLid = ''H1'', block_file = ''block_0'', info_cluster = ''A''\<rparr>,
        \<lparr>LCLid = ''H2'', block_file = ''block_0'', info_cluster = ''B''\<rparr>,
        \<lparr>LCLid = ''H3'', block_file = ''block_1'', info_cluster = ''A''\<rparr>]
       (Some 2) None
   = Inr [\<lparr>LCLid = ''H1'', block_file = ''block_0'', info_cluster = ''A''\<rparr>,
          \<lparr>LCLid = ''H2'', block_file = ''block_0'', info_cluster = ''B''\<rparr>]"
  using household_sampling_selects_min_of_sample_size_and_pool
    [of 2
      "[\<lparr>household_id = ''H1'', cluster_id = ''A'', timestamp = 0, consumption_kwh = 1\<rparr>,
        \<lparr>household_id = ''H2'', cluster_id = ''A'', timestamp = 0, consumption_kwh = 2\<rparr>,
        \<lparr>household_id = ''H1'', cluster_id = ''A'', timestamp = 1800, consumption_kwh = 3\<rparr>,
        \<lparr>household_id = ''H3'', cluster_id = ''A'', timestamp = 0, consumption_kwh = 4\<rparr>]"
      parse_date None None None
      "[\<lparr>household_id = ''H1'', cluster_id = ''A'', timestamp = 0, consumption_kwh = 1\<rparr>,
        \<lparr>household_id = ''H2'', cluster_id = ''A'', timestamp = 0, consumption_kwh = 2\<rparr>,
        \<lparr>household_id = ''H1'', cluster_id = ''A'', timestamp = 1800, consumption_kwh = 3\<rparr>,
        \<lparr>household_id = ''H3'', cluster_id = ''A'', timestamp = 0, consumption_kwh = 4\<rparr>]"
      "[''H1'', ''H2'', ''H3'']"
      first_rows
      "[\<lparr>LCLid = ''H1'', block_file = ''block_0'', info_cluster = ''A''\<rparr>,
        \<lparr>LCLid = ''H2'', block_file = ''block_0'', info_cluster = ''B''\<rparr>,
        \<lparr>LCLid = ''H3'', block_file = ''block_1'', info_cluster = ''A''\<rparr>]"
      None
      "[\<lparr>LCLid = ''H1'', block_file = ''block_0'', info_cluster = ''A''\<rparr>,
        \<lparr>LCLid = ''H2'', block_file = ''block_0'', info_cluster = ''B''\<rparr>,
        \<lparr>LCLid = ''H3'', block_file = ''block_1'', info_cluster = ''A''\<rparr>]"]
  by (simp add: date_stage_def cluster_stage_def drop_duplicates_def valid_draw_def
      first_rows_def lcl_households_def falsy_list falsy_int filter_data_def pd_sample_def
      truthy_int_def falsy_str Let_def upt_rec)

text \<open>The claim as stated fails for the sample size 0: nothing is sampled, and both
  households stay.\<close>

theorem sample_size_zero_keeps_every_household:
  "filter_data first_rows parse_date
     [\<lparr>household_id = ''H1'', cluster_id = ''A'', timestamp = 0, consumption_kwh = 1\<rparr>,
      \<lparr>household_id = ''H2'', cluster_id = ''A'', timestamp = 0, consumption_kwh = 2\<rparr>]
     (Some 0) None None None
   = Inr [\<lparr>household_id = ''H1'', cluster_id = ''A'', timestamp = 0, consumption_kwh = 1\<rparr>,
          \<lparr>household_id = ''H2'', cluster_id = ''A'', timestamp = 0, consumption_kwh = 2\<rparr>]
   \<and> card (household_id ` set
        [\<lparr>household_id = ''H1'', cluster_id = ''A'', timestamp = 0, consumption_kwh = 1\<rparr>,
         \<lparr>household_id = ''H2'', cluster_id = ''A'', timestamp = 0, consumption_kwh = 2\<rparr>])
      \<noteq> min (nat 0) (card (household_id ` set
        [\<lparr>household_id = ''H1'', cluster_id = ''A'', timestamp = 0, consumption_kwh = 1\<rparr>,
         \<lparr>household_id = ''H2'', cluster_id = ''A'', timestamp = 0, consumption_kwh = 2\<rparr>]))"
  by (simp add: filter_data_def falsy_int falsy_list falsy_str Let_def)

section \<open>Missing blocks and empty results\<close>

lemma load_blocks_printed:
  "snd (load_blocks td dir info s e fs) = map block_warning (filter (\<lambda>f. dir f = None) fs)"
  by (induction fs) (auto simp: Let_def split: prod.splits option.splits)

lemma load_blocks_frames:
  "fst (load_blocks td dir info s e fs) = List.map_filter (frame_of td dir info s e) fs"
  by (induction fs)
    (auto simp: Let_def List.map_filter_simps frame_of_def split: prod.splits option.splits)

lemma load_lcl_dataset_blocks:
  assumes cols: "required_info_cols cc \<subseteq> set (info_columns tbl)"
    and hh: "lcl_households rng (info_rows tbl) n cls = Inr info"
  shows "load_lcl_dataset rng td tbl dir cc n cls s e =
           (map block_warning (filter (\<lambda>f. dir f = None) (sort (remdups (map block_file info)))),
            if List.map_filter (frame_of td dir info s e) (sort (remdups (map block_file info))) = []
            then Inl (SystemExit ''No data loaded from blocks; check paths and filters.'')
            else Inr (concat (List.map_filter (frame_of td dir info s e)
                                (sort (remdups (map block_file info))))))"
proof -
  obtain frames printed where
    lb: "load_blocks td dir info s e (sort (remdups (map block_file info))) = (frames, printed)"
    by (cases "load_blocks td dir info s e (sort (remdups (map block_file info)))")
  have f: "frames = List.map_filter (frame_of td dir info s e) (sort (remdups (map block_file info)))"
    using load_blocks_frames [of td dir info s e "sort (remdups (map block_file info))"] lb by simp
  have p: "printed = map block_warning (filter (\<lambda>f. dir f = None) (sort (remdups (map block_file info))))"
    using load_blocks_printed [of td dir info s e "sort (remdups (map block_file info))"] lb by simp
  have "load_lcl_dataset rng td tbl dir cc n cls s e =
          (if frames = []
           then (printed, Inl (SystemExit ''No data loaded from blocks; check paths and filters.''))
           else (printed, Inr (concat frames)))"
    using cols hh lb by (simp add: load_lcl_dataset_def Let_def)
  then show ?thesis using f p by simp
qed

lemma main_cases:
  "main rng td a =
     (fst (load_records rng td a),
      case snd (load_records rng td a) of
        Inl e \<Rightarrow> Inl e
      | Inr df \<Rightarrow> if df = [] then Inl (SystemExit ''No data after filtering; check inputs.'')
                  else Inr (compute_profiles (add_time_features df)))"
  by (cases "load_records rng td a") (simp add: main_def split: sum.splits)

lemma load_records_lcl:
  "lcl_info_csv a = Some tbl \<Longrightarrow> lcl_blocks_dir a = Some dir \<Longrightarrow>
   load_records rng td a =
     load_lcl_dataset rng td tbl dir (lcl_cluster_col a) (sample_households a)
       (if truthy_str (clusters a) then Some (split_on CHR '','' (the (clusters a))) else None)
       (start_date a) (end_date a)"
  by (simp add: load_records_def Let_def)


text \<open>
  Claim C7, as amended. In a multi-block run whose info table has its columns and whose
  household list is not empty, every block file that does not exist prints one warning and
  appends nothing, and the frames are those of the block files that exist. When no block
  file yields a frame (each is missing, or holds no row of its households) the run stops
  with "No data loaded from blocks"; when frames were appended but hold no record (every
  row failed to parse or fell outside the dates) the adapter returns an empty record set and
  the run stops with "No data after filtering"; otherwise the records are aggregated.
\<close>

theorem missing_blocks_are_skipped_and_no_records_is_fatal:
  assumes "lcl_info_csv a = Some tbl" and "lcl_blocks_dir a = Some dir"
    and "required_info_cols (lcl_cluster_col a) \<subseteq> set (info_columns tbl)"
    and "cls = (if truthy_str (clusters a) then Some (split_on CHR '','' (the (clusters a)))
                else None)"
    and "lcl_households rng (info_rows tbl) (sample_households a) cls = Inr info"
    and "files = sort (remdups (map block_file info))"
    and "frames = List.map_filter (frame_of td dir info (start_date a) (end_date a)) files"
  shows "fst (main rng td a) = map block_warning (filter (\<lambda>f. dir f = None) files)
       \<and> frames = List.map_filter (frame_of td dir info (start_date a) (end_date a))
                    (filter (\<lambda>f. dir f \<noteq> None) files)
       \<and> snd (main rng td a) =
           (if frames = []
            then Inl (SystemExit ''No data loaded from blocks; check paths and filters.'')
            else if concat frames = []
            then Inl (SystemExit ''No data after filtering; check inputs.'')
            else Inr (compute_profiles (add_time_features (concat frames))))"
proof -
  have lr: "load_records rng td a =
          (map block_warning (filter (\<lambda>f. dir f = None) files),
           if frames = []
           then Inl (SystemExit ''No data loaded from blocks; check paths and filters.'')
           else Inr (concat frames))"
    using load_lcl_dataset_blocks [OF assms(3) assms(5) [unfolded assms(4)], of td dir
        "start_date a" "end_date a"]
    by (simp only: load_records_lcl [OF assms(1) assms(2)] assms(6) assms(7))
  have skip: "List.map_filter g fs = List.map_filter g (filter (\<lambda>f. dir f \<noteq> None) fs)"
    if "\<And>f. dir f = None \<Longrightarrow> g f = None" for g :: "string \<Rightarrow> consumption_record list option" and fs
    using that by (induction fs) (auto simp: List.map_filter_simps split: option.splits)
  have fr: "frames = List.map_filter (frame_of td dir info (start_date a) (end_date a))
                    (filter (\<lambda>f. dir f \<noteq> None) files)"
    unfolding assms(7) by (rule skip) (simp add: frame_of_def)
  show ?thesis using fr by (simp add: main_cases lr)
qed


lemma sort_two_blocks: "sort [''block_0'', ''block_1''] = [''block_0'', ''block_1'']"
  by code_simp

lemma compute_one:
  "compute_profiles (add_time_features
     [\<lparr>household_id = ''H1'', cluster_id = ''A'', timestamp = 1704067200, consumption_kwh = 1\<rparr>])
   = \<lparr>profile_columns = [''cluster_id'', ''slot'', ''weekday_kwh''],
      profile_rows = [\<lparr>profile_cluster_id = ''A'', profile_slot = 0,
                       weekday_kwh = Some 1, weekend_kwh = None\<rparr>]\<rparr>"
  by (simp add: compute_profiles_def grouped_def add_time_features_def minute_def hour_def
      dayofweek_def group_key_def mean_def pivot_cell_def weekend_column_name_def Let_def)

text \<open>Block 0 exists and block 1 does not: one warning, and the profile of block 0.\<close>

theorem missing_blocks_are_skipped_and_no_records_is_fatal_witness:
  "main first_rows parse_date
     \<lparr>consumption_csv = None, sample_households = None, clusters = None,
      start_date = None, end_date = None,
      lcl_info_csv = Some \<lparr>info_columns = [''LCLid'', ''file'', ''Acorn_grouped''],
                            info_rows = [\<lparr>LCLid = ''H1'', block_file = ''block_0'', info_cluster = ''A''\<rparr>,
                                         \<lparr>LCLid = ''H2'', block_file = ''block_1'', info_cluster = ''A''\<rparr>]\<rparr>,
      lcl_blocks_dir = Some (\<lambda>f. if f = ''block_0''
            then Some [\<lparr>block_LCLid = ''H1'', tstp = Some 1704067200, energy = Some 1\<rparr>]
            else None),
      lcl_cluster_col = ''Acorn_grouped''\<rparr>
   = ([''Warning: block file missing: block_1.csv''],
      Inr \<lparr>profile_columns = [''cluster_id'', ''slot'', ''weekday_kwh''],
           profile_rows = [\<lparr>profile_cluster_id = ''A'', profile_slot = 0,
                            weekday_kwh = Some 1, weekend_kwh = None\<rparr>]\<rparr>)"
proof -
  let ?info = "[\<lparr>LCLid = ''H1'', block_file = ''block_0'', info_cluster = ''A''\<rparr>,
                \<lparr>LCLid = ''H2'', block_file = ''block_1'', info_cluster = ''A''\<rparr>]"
  let ?tbl = "\<lparr>info_columns = [''LCLid'', ''file'', ''Acorn_grouped''], info_rows = ?info\<rparr>"
  let ?dir = "\<lambda>f. if f = ''block_0''
            then Some [\<lparr>block_LCLid = ''H1'', tstp = Some (1704067200::int), energy = Some (1::real)\<rparr>]
            else None"
  let ?a = "\<lparr>consumption_csv = None, sample_households = None, clusters = None,
      start_date = None, end_date = None, lcl_info_csv = Some ?tbl,
      lcl_blocks_dir = Some ?dir, lcl_cluster_col = ''Acorn_grouped''\<rparr>"
  let ?frames = "[[\<lparr>household_id = ''H1'', cluster_id = ''A'', timestamp = 1704067200, consumption_kwh = 1\<rparr>]]"
  have h1: "lcl_info_csv ?a = Some ?tbl" by simp
  have h2: "lcl_blocks_dir ?a = Some ?dir" by simp
  have h3: "required_info_cols (lcl_cluster_col ?a) \<subseteq> set (info_columns ?tbl)"
    by (simp add: required_info_cols_def)
  have h4: "None = (if truthy_str (clusters ?a) then Some (split_on CHR '','' (the (clusters ?a)))
                else None)" by (simp add: falsy_str)
  have h5: "lcl_households first_rows (info_rows ?tbl) (sample_households ?a) None = Inr ?info"
    by (simp add: lcl_households_def falsy_list falsy_int)
  have h6: "[''block_0'', ''block_1''] = sort (remdups (map block_file ?info))"
    using sort_two_blocks by simp
  have h7: "?frames = List.map_filter (frame_of parse_date ?dir ?info (start_date ?a) (end_date ?a))
                [''block_0'', ''block_1'']"
    by (simp add: List.map_filter_simps frame_of_def read_block_def block_ids_def falsy_str Let_def)
  show ?thesis
    using missing_blocks_are_skipped_and_no_records_is_fatal [OF h1 h2 h3 h4 h5 h6 h7]
    by (simp add: block_warning_def compute_one prod_eq_iff)
qed

text \<open>The claim as stated fails where the only block exists but its one row has a
  timestamp that does not parse: no block contributes a record, the adapter returns an
  empty record set without an error, and the message of the run is not "No data loaded".\<close>

theorem unparseable_block_counterexample:
  "load_lcl_dataset first_rows parse_date
       \<lparr>info_columns = [''LCLid'', ''file'', ''Acorn_grouped''],
        info_rows = [\<lparr>LCLid = ''H1'', block_file = ''block_0'', info_cluster = ''A''\<rparr>]\<rparr>
       (\<lambda>f. if f = ''block_0''
            then Some [\<lparr>block_LCLid = ''H1'', tstp = None, energy = Some 1\<rparr>]
            else None)
       ''Acorn_grouped'' None None None None
     = ([], Inr [])
   \<and> main first_rows parse_date
     \<lparr>consumption_csv = None, sample_households = None, clusters = None,
      start_date = None, end_date = None,
      lcl_info_csv = Some \<lparr>info_columns = [''LCLid'', ''file'', ''Acorn_grouped''],
                            info_rows = [\<lparr>LCLid = ''H1'', block_file = ''block_0'', info_cluster = ''A''\<rparr>]\<rparr>,
      lcl_blocks_dir = Some (\<lambda>f. if f = ''block_0''
            then Some [\<lparr>block_LCLid = ''H1'', tstp = None, energy = Some 1\<rparr>]
            else None),
      lcl_cluster_col = ''Acorn_grouped''\<rparr>
     = ([], Inl (SystemExit ''No data after filtering; check inputs.''))
   \<and> SystemExit ''No data after filtering; check inputs.''
       \<noteq> SystemExit ''No data loaded from blocks; check paths and filters.''"
  by (simp add: main_def load_records_def load_lcl_dataset_def lcl_households_def read_block_def
      block_ids_def required_info_cols_def falsy_str falsy_list falsy_int Let_def)

section \<open>No records after filtering\<close>





section \<open>Aggregation\<close>

lemma grouped_keys: "map fst (grouped df) = sort (remdups (map group_key df))"
  by (simp add: grouped_def comp_def)



lemma sorted_grouped_keys: "sorted (map fst (grouped df))"
  by (simp add: grouped_keys)









section \<open>Reshaping\<close>

text \<open>The rows of the wide table are the distinct pairs of cluster and slot of the input,
  in order; a cell holds the mean of its group, and nothing where the group is empty; the
  column \<open>weekend_kwh\<close> exists exactly when some record falls on a weekend.\<close>

lemma pivot_cell_grouped:
  "pivot_cell (grouped df) c s w =
     (if (c, w, s) \<in> group_key ` set df
      then Some (mean (map (\<lambda>a. consumption_kwh (base a))
                        (filter (\<lambda>a. group_key a = (c, w, s)) df)))
      else None)"
  by (simp add: pivot_cell_def grouped_def map_of_map_restrict restrict_map_def)

lemma profile_rows_index:
  "map (\<lambda>r. (profile_cluster_id r, profile_slot r)) (profile_rows (compute_profiles df))
     = sort (remdups (map (\<lambda>a. (cluster_id (base a), slot a)) df))"
proof -
  have "set (map (\<lambda>((c, w, s), v). (c, s)) (grouped df))
          = set (map (\<lambda>a. (cluster_id (base a), slot a)) df)"
    by (force simp: grouped_def group_key_def)
  then have "sort (remdups (map (\<lambda>((c, w, s), v). (c, s)) (grouped df)))
          = sort (remdups (map (\<lambda>a. (cluster_id (base a), slot a)) df))"
    by (simp only: sorted_list_of_set_sort_remdups [symmetric])
  then show ?thesis
    by (simp add: compute_profiles_def Let_def comp_def case_prod_unfold)
qed

lemma profile_rows_cells:
  assumes "r \<in> set (profile_rows (compute_profiles df))"
  shows "weekday_kwh r = pivot_cell (grouped df) (profile_cluster_id r) (profile_slot r) False"
    and "weekend_kwh r = pivot_cell (grouped df) (profile_cluster_id r) (profile_slot r) True"
  using assms by (auto simp: compute_profiles_def Let_def)

lemma profile_columns_weekend:
  "''weekend_kwh'' \<in> set (profile_columns (compute_profiles df)) \<longleftrightarrow> (\<exists>a \<in> set df. is_weekend a)"
  by (force simp: compute_profiles_def Let_def weekend_column_name_def grouped_def group_key_def
      image_iff)

text \<open>
  Claim C2, at the input where the script departs from it: one record, on Monday
  2024-01-01 at 00:00. The table has the row of cluster A and slot 0 with the weekday mean,
  but its columns are \<open>cluster_id\<close>, \<open>slot\<close> and \<open>weekday_kwh\<close> only: the pivot makes a
  column for a value of \<open>is_weekend\<close> only if it occurs, and the renaming finds no column
  to call \<open>weekend_kwh\<close>.
\<close>

theorem weekday_only_input_has_no_weekend_column:
  "compute_profiles (add_time_features
     [\<lparr>household_id = ''H1'', cluster_id = ''A'', timestamp = 1704067200, consumption_kwh = 1\<rparr>])
   = \<lparr>profile_columns = [''cluster_id'', ''slot'', ''weekday_kwh''],
      profile_rows = [\<lparr>profile_cluster_id = ''A'', profile_slot = 0,
                       weekday_kwh = Some 1, weekend_kwh = None\<rparr>]\<rparr>
   \<and> ''weekend_kwh'' \<notin> set (profile_columns (compute_profiles (add_time_features
     [\<lparr>household_id = ''H1'', cluster_id = ''A'', timestamp = 1704067200, consumption_kwh = 1\<rparr>])))"
  by (simp add: compute_profiles_def grouped_def add_time_features_def minute_def hour_def
      dayofweek_def group_key_def mean_def pivot_cell_def weekend_column_name_def Let_def)

end
